theory Spec2Isabelle
  imports Main "HOL-Library.AList"
begin

section \<open>Python values used by \<open>hw_7.py\<close>\<close>

text \<open>
  A Python \<open>str\<close> is modelled as an Isabelle \<open>string\<close>, one \<open>char\<close> per code point, which
  covers the code points below 256. On these, the regular-expression class \<open>\d\<close> is
  exactly the ASCII digits and \<open>str.isspace\<close> holds of the twelve characters listed in
  \<open>is_space\<close>. An exception is a value of \<open>error\<close>; a call that may raise returns
  \<open>error + 'a\<close>, with \<open>Inl\<close> for the exception.
\<close>

datatype error =
    KeyError string
  | ValueError string
  | IndexError string
  | TypeError string
  | AttributeError string
  | OverflowError string

definition is_digit :: "char \<Rightarrow> bool" where
  "is_digit c = (48 \<le> (of_char c :: nat) \<and> (of_char c :: nat) \<le> 57)"

definition digit_val :: "char \<Rightarrow> int" where
  "digit_val c = int (of_char c) - 48"

definition is_space :: "char \<Rightarrow> bool" where
  "is_space c = ((of_char c :: nat) \<in> {9, 10, 11, 12, 13, 28, 29, 30, 31, 32, 133, 160})"

text \<open>\<open>str.strip()\<close>: whitespace removed at both ends.\<close>

definition strip :: "string \<Rightarrow> string" where
  "strip s = rev (dropWhile is_space (rev (dropWhile is_space s)))"

text \<open>\<open>str.split()\<close> without a separator: the maximal runs of non-whitespace characters.\<close>

fun split_from :: "string \<Rightarrow> string \<Rightarrow> string list" where
  "split_from cur [] = (if cur = [] then [] else [cur])"
| "split_from cur (c # cs) =
     (if is_space c then (if cur = [] then split_from [] cs else cur # split_from [] cs)
      else split_from (cur @ [c]) cs)"

definition split :: "string \<Rightarrow> string list" where
  "split s = split_from [] s"

text \<open>\<open>str.lower()\<close> on code points below 256: A-Z and the Latin-1 capitals move by 32.\<close>

definition lower_char :: "char \<Rightarrow> char" where
  "lower_char c =
     (let n = (of_char c :: nat)
      in if (65 \<le> n \<and> n \<le> 90) \<or> (192 \<le> n \<and> n \<le> 222 \<and> n \<noteq> 215)
         then char_of (n + 32) else c)"

definition lower :: "string \<Rightarrow> string" where
  "lower s = map lower_char s"

text \<open>\<open>sep.join(xs)\<close>.\<close>

fun join :: "string \<Rightarrow> string list \<Rightarrow> string" where
  "join sep [] = []"
| "join sep [x] = x"
| "join sep (x # y # ys) = x @ sep @ join sep (y # ys)"

text \<open>Decimal text of a number: \<open>str(n)\<close>, and the zero-padded fields of \<open>strftime\<close>.\<close>

definition digit_char :: "nat \<Rightarrow> char" where
  "digit_char n = char_of (48 + n mod 10)"

function str_nat :: "nat \<Rightarrow> string" where
  "str_nat n = (if n < 10 then [digit_char n] else str_nat (n div 10) @ [digit_char n])"
  by pat_completeness auto
termination
  by (relation "measure id") auto

declare str_nat.simps [simp del]

fun pad_dec :: "nat \<Rightarrow> nat \<Rightarrow> string" where
  "pad_dec 0 n = []"
| "pad_dec (Suc w) n = pad_dec w (n div 10) @ [digit_char n]"

section \<open>The library's \<open>date\<close>\<close>

text \<open>
  \<open>datetime.date\<close>: a year in 1..9999, a month in 1..12 and a day that exists in that
  month. The constructor raises \<open>ValueError\<close> on anything else; \<open>replace(year=y)\<close>
  constructs the date again with the other two fields kept.
\<close>

record date =
  year :: int
  month :: int
  day :: int

definition is_leap :: "int \<Rightarrow> bool" where
  "is_leap y = (y mod 4 = 0 \<and> (y mod 100 \<noteq> 0 \<or> y mod 400 = 0))"

definition days_in_month :: "int \<Rightarrow> int \<Rightarrow> int" where
  "days_in_month y m =
     (if m = 2 then (if is_leap y then 29 else 28)
      else if m = 4 \<or> m = 6 \<or> m = 9 \<or> m = 11 then 30 else 31)"

definition valid_date :: "date \<Rightarrow> bool" where
  "valid_date d =
     (1 \<le> year d \<and> year d \<le> 9999 \<and> 1 \<le> month d \<and> month d \<le> 12 \<and>
      1 \<le> day d \<and> day d \<le> days_in_month (year d) (month d))"

definition date_new :: "int \<Rightarrow> int \<Rightarrow> int \<Rightarrow> error + date" where
  "date_new y m d =
     (if y < 1 \<or> 9999 < y then Inl (ValueError (''year '' @ str_nat (nat y) @ '' is out of range''))
      else if m < 1 \<or> 12 < m then Inl (ValueError ''month must be in 1..12'')
      else if d < 1 \<or> days_in_month y m < d then Inl (ValueError ''day is out of range for month'')
      else Inr \<lparr>year = y, month = m, day = d\<rparr>)"

definition replace_year :: "date \<Rightarrow> int \<Rightarrow> error + date" where
  "replace_year d y = date_new y (month d) (day d)"

text \<open>Comparison of dates is that of the triples (year, month, day).\<close>

definition date_less :: "date \<Rightarrow> date \<Rightarrow> bool" where
  "date_less a b =
     (year a < year b \<or> (year a = year b \<and>
       (month a < month b \<or> (month a = month b \<and> day a < day b))))"

text \<open>
  The proleptic Gregorian ordinal (\<open>toordinal\<close>, 1 for 0001-01-01), the difference of two
  dates in days, and the weekday (Monday is 0, Saturday 5, Sunday 6).
\<close>

definition days_before_year :: "int \<Rightarrow> int" where
  "days_before_year y = (y - 1) * 365 + (y - 1) div 4 - (y - 1) div 100 + (y - 1) div 400"

definition days_before_month :: "int \<Rightarrow> int \<Rightarrow> int" where
  "days_before_month y m =
     [0, 31, 59, 90, 120, 151, 181, 212, 243, 273, 304, 334] ! nat (m - 1)
       + (if 2 < m \<and> is_leap y then 1 else 0)"

definition toordinal :: "date \<Rightarrow> int" where
  "toordinal d = days_before_year (year d) + days_before_month (year d) (month d) + day d"

definition days_between :: "date \<Rightarrow> date \<Rightarrow> int" where
  "days_between a b = toordinal a - toordinal b"

definition weekday :: "date \<Rightarrow> int" where
  "weekday d = (toordinal d + 6) mod 7"

text \<open>
  \<open>d + timedelta(days=k)\<close> for a small \<open>k\<close>: the calendar successor taken \<open>k\<close> times;
  a result after 9999-12-31 raises \<open>OverflowError\<close>.
\<close>

definition next_day :: "date \<Rightarrow> date" where
  "next_day d =
     (if day d < days_in_month (year d) (month d) then d\<lparr>day := day d + 1\<rparr>
      else if month d < 12 then \<lparr>year = year d, month = month d + 1, day = 1\<rparr>
      else \<lparr>year = year d + 1, month = 1, day = 1\<rparr>)"

fun plus_days :: "date \<Rightarrow> nat \<Rightarrow> date" where
  "plus_days d 0 = d"
| "plus_days d (Suc k) = plus_days (next_day d) k"

definition add_days :: "date \<Rightarrow> nat \<Rightarrow> error + date" where
  "add_days d k =
     (if 9999 < year (plus_days d k) then Inl (OverflowError ''date value out of range'')
      else Inr (plus_days d k))"

text \<open>
  \<open>strftime('%d.%m.%Y')\<close> of a date: two digits, two digits, four digits (the year of a
  date has at most four).
\<close>

definition strftime_dmY :: "date \<Rightarrow> string" where
  "strftime_dmY d =
     pad_dec 2 (nat (day d)) @ ''.'' @ pad_dec 2 (nat (month d)) @ ''.'' @ pad_dec 4 (nat (year d))"

section \<open>Regular expressions of the source and of \<open>strptime\<close>\<close>

text \<open>
  \<open>re.match(r"^\d{10}$", s)\<close>: ten digits from the start of the string, then \<open>$\<close>, which
  matches at the end of the string and also just before a line feed that ends it.
\<close>

fun match_digits :: "nat \<Rightarrow> string \<Rightarrow> string option" where
  "match_digits 0 s = Some s"
| "match_digits (Suc n) [] = None"
| "match_digits (Suc n) (c # cs) = (if is_digit c then match_digits n cs else None)"

definition match_dollar :: "string \<Rightarrow> bool" where
  "match_dollar rest = (rest = [] \<or> rest = [CHR 0x0A])"

definition phone_re_match :: "string \<Rightarrow> bool" where
  "phone_re_match s = (case match_digits 10 s of None \<Rightarrow> False | Some rest \<Rightarrow> match_dollar rest)"

text \<open>
  \<open>datetime.strptime(s, "%d.%m.%Y")\<close> matches \<open>s\<close> from its start against the regular
  expression the library builds from the format,
  \<^verbatim>\<open>(?P<d>3[0-1]|[1-2]\d|0[1-9]|[1-9]| [1-9])\.(?P<m>1[0-2]|0[1-9]|[1-9])\.(?P<Y>\d\d\d\d)\<close>,
  raises \<open>ValueError\<close> when there is no match or when text remains after the match, and
  builds the date from \<open>int\<close> of the three groups. Each function below returns the ways
  its part of the expression matches a prefix, in the order of the alternatives, with
  the text matched and the rest; the first complete match is the one the matcher finds.
\<close>

definition in_range :: "char \<Rightarrow> char \<Rightarrow> char \<Rightarrow> bool" where
  "in_range lo hi c = ((of_char lo :: nat) \<le> of_char c \<and> (of_char c :: nat) \<le> of_char hi)"

definition one :: "(char \<Rightarrow> bool) \<Rightarrow> string \<Rightarrow> (string \<times> string) list" where
  "one p s = (case s of a # r \<Rightarrow> (if p a then [([a], r)] else []) | _ \<Rightarrow> [])"

definition two :: "(char \<Rightarrow> bool) \<Rightarrow> (char \<Rightarrow> bool) \<Rightarrow> string \<Rightarrow> (string \<times> string) list" where
  "two p q s = (case s of a # b # r \<Rightarrow> (if p a \<and> q b then [([a, b], r)] else []) | _ \<Rightarrow> [])"

definition lit :: "char \<Rightarrow> string \<Rightarrow> string list" where
  "lit c s = (case s of a # r \<Rightarrow> (if a = c then [r] else []) | _ \<Rightarrow> [])"

definition re_d :: "string \<Rightarrow> (string \<times> string) list" where
  "re_d s =
     two (\<lambda>c. c = CHR ''3'') (in_range CHR ''0'' CHR ''1'') s
     @ two (in_range CHR ''1'' CHR ''2'') is_digit s
     @ two (\<lambda>c. c = CHR ''0'') (in_range CHR ''1'' CHR ''9'') s
     @ one (in_range CHR ''1'' CHR ''9'') s
     @ two (\<lambda>c. c = CHR '' '') (in_range CHR ''1'' CHR ''9'') s"

definition re_m :: "string \<Rightarrow> (string \<times> string) list" where
  "re_m s =
     two (\<lambda>c. c = CHR ''1'') (in_range CHR ''0'' CHR ''2'') s
     @ two (\<lambda>c. c = CHR ''0'') (in_range CHR ''1'' CHR ''9'') s
     @ one (in_range CHR ''1'' CHR ''9'') s"

definition re_Y :: "string \<Rightarrow> (string \<times> string) list" where
  "re_Y s = (case match_digits 4 s of None \<Rightarrow> [] | Some r \<Rightarrow> [(take 4 s, r)])"

definition strptime_matches :: "string \<Rightarrow> (string \<times> string \<times> string \<times> string) list" where
  "strptime_matches s =
     [(d, m, y, r5). (d, r1) \<leftarrow> re_d s, r2 \<leftarrow> lit CHR ''.'' r1,
                      (m, r3) \<leftarrow> re_m r2, r4 \<leftarrow> lit CHR ''.'' r3, (y, r5) \<leftarrow> re_Y r4]"

text \<open>\<open>int(t)\<close> of a group: surrounding whitespace is dropped, then the digits are read.\<close>

definition int_text :: "string \<Rightarrow> int" where
  "int_text t = foldl (\<lambda>acc c. 10 * acc + digit_val c) 0 (strip t)"

text \<open>
  The message of the library's \<open>ValueError\<close> also quotes the data; \<open>Birthday\<close> replaces
  the message, and no stored birthday fails to parse, so the quoted part is left out.
\<close>

definition strptime :: "string \<Rightarrow> error + date" where
  "strptime s =
     (case strptime_matches s of
        [] \<Rightarrow> Inl (ValueError ''time data does not match format'')
      | (d, m, y, rest) # _ \<Rightarrow>
          (if rest \<noteq> [] then Inl (ValueError ''unconverted data remains'')
           else date_new (int_text y) (int_text m) (int_text d)))"

section \<open>Fields\<close>

text \<open>
  \<open>Name\<close>, \<open>Phone\<close> and \<open>Birthday\<close> keep the string they were made from in \<open>value\<close>;
  each constructor is modelled by the validation it runs, returning the stored string.
\<close>

definition Name :: "string \<Rightarrow> error + string" where
  "Name val = (if strip val = [] then Inl (ValueError ''Name cannot be empty.'') else Inr val)"

definition Phone :: "string \<Rightarrow> error + string" where
  "Phone val =
     (if \<not> phone_re_match val then Inl (ValueError ''Phone must contain exactly 10 digits.'')
      else Inr val)"

definition Birthday :: "string \<Rightarrow> error + string" where
  "Birthday val =
     (case strptime val of
        Inr _ \<Rightarrow> Inr val
      | Inl (ValueError _) \<Rightarrow> Inl (ValueError ''Invalid date format. Use DD.MM.YYYY.'')
      | Inl e \<Rightarrow> Inl e)"

section \<open>Record\<close>

text \<open>
  A method that mutates \<open>self\<close> takes the record and returns its result together with the
  record as the call leaves it, also when the call raises.
\<close>

record Record =
  name :: string
  phones :: "string list"
  birthday :: "string option"

definition Record_init :: "string \<Rightarrow> error + Record" where
  "Record_init n =
     (case Name n of Inl e \<Rightarrow> Inl e
      | Inr nm \<Rightarrow> Inr \<lparr>name = nm, phones = [], birthday = None\<rparr>)"

definition Record_add_phone :: "string \<Rightarrow> Record \<Rightarrow> (error + unit) \<times> Record" where
  "Record_add_phone phone self =
     (case Phone phone of Inl e \<Rightarrow> (Inl e, self)
      | Inr p \<Rightarrow> (Inr (), self\<lparr>phones := phones self @ [p]\<rparr>))"

definition Record_find_phone :: "string \<Rightarrow> Record \<Rightarrow> string option" where
  "Record_find_phone phone self = List.find (\<lambda>p. p = phone) (phones self)"

definition Record_remove_phone :: "string \<Rightarrow> Record \<Rightarrow> Record" where
  "Record_remove_phone phone self =
     (case Record_find_phone phone self of
        Some phone_to_remove \<Rightarrow> self\<lparr>phones := remove1 phone_to_remove (phones self)\<rparr>
      | None \<Rightarrow> self)"

definition Record_edit_phone :: "string \<Rightarrow> string \<Rightarrow> Record \<Rightarrow> (error + unit) \<times> Record" where
  "Record_edit_phone old_phone new_phone self =
     (case Record_find_phone old_phone self of
        Some phone_to_edit \<Rightarrow> Record_add_phone new_phone (Record_remove_phone old_phone self)
      | None \<Rightarrow> (Inl (ValueError ''Old phone not found.''), self))"

definition Record_add_birthday :: "string \<Rightarrow> Record \<Rightarrow> (error + unit) \<times> Record" where
  "Record_add_birthday b self =
     (case birthday self of
        Some _ \<Rightarrow> (Inl (ValueError ''Birthday is already set.''), self)
      | None \<Rightarrow>
          (case Birthday b of Inl e \<Rightarrow> (Inl e, self)
           | Inr bd \<Rightarrow> (Inr (), self\<lparr>birthday := Some bd\<rparr>)))"

text \<open>
  \<open>self.birthday.value\<close> is the string \<open>Birthday\<close> stored, and a \<open>str\<close> has no attribute
  \<open>strftime\<close>: the lookup raises \<open>AttributeError\<close>.
\<close>

definition str_strftime :: "string \<Rightarrow> string \<Rightarrow> error + string" where
  "str_strftime s fmt = Inl (AttributeError ''strftime'')"

definition Record_str :: "Record \<Rightarrow> error + string" where
  "Record_str self =
     (let phones_str = join ''; '' (phones self)
      in case (case birthday self of
                 Some b \<Rightarrow>
                   (case str_strftime b ''%d.%m.%Y'' of Inl e \<Rightarrow> Inl e
                    | Inr t \<Rightarrow> Inr ('', Birthday: '' @ t))
               | None \<Rightarrow> Inr [])
         of Inl e \<Rightarrow> Inl e
          | Inr birthday_str \<Rightarrow>
              Inr (''Contact name: '' @ name self @ '', phones: '' @ phones_str @ birthday_str))"

section \<open>AddressBook\<close>

text \<open>
  The book is the dictionary \<open>data\<close>: record by name, in insertion order. Assigning to a
  key that is present keeps its place, assigning to a new key appends, which is
  \<open>AList.update\<close>. Every record lives in the dictionary only, so a method call on a
  record that was looked up is written back under the key it was found at.
\<close>

type_synonym AddressBook = "(string \<times> Record) list"

definition AddressBook_add_record :: "Record \<Rightarrow> AddressBook \<Rightarrow> AddressBook" where
  "AddressBook_add_record record data = AList.update (name record) record data"

definition AddressBook_find :: "string \<Rightarrow> AddressBook \<Rightarrow> Record option" where
  "AddressBook_find n data = map_of data n"

definition AddressBook_delete :: "string \<Rightarrow> AddressBook \<Rightarrow> (error + unit) \<times> AddressBook" where
  "AddressBook_delete n data =
     (case map_of data n of
        Some _ \<Rightarrow> (Inr (), AList.delete n data)
      | None \<Rightarrow> (Inl (KeyError (''No contact named '' @ n)), data))"

definition call_on :: "string \<Rightarrow> Record \<Rightarrow> (Record \<Rightarrow> (error + 'a) \<times> Record) \<Rightarrow> AddressBook
    \<Rightarrow> (error + 'a) \<times> AddressBook" where
  "call_on key record method data =
     (case method record of (res, record') \<Rightarrow> (res, AList.update key record' data))"

text \<open>
  \<open>get_upcoming_birthdays\<close>: the loop over \<open>self.data.values()\<close>, with the list built so
  far as accumulator; \<open>today\<close> is the date the clock gives. An entry is the pair of the
  dictionary's \<open>name\<close> and \<open>birthday\<close>.
\<close>

type_synonym entry = "string \<times> string"

fun upcoming_loop :: "date \<Rightarrow> Record list \<Rightarrow> entry list \<Rightarrow> error + entry list" where
  "upcoming_loop today [] upcoming_birthdays = Inr upcoming_birthdays"
| "upcoming_loop today (record # rest) upcoming_birthdays =
     (case birthday record of
        None \<Rightarrow> upcoming_loop today rest upcoming_birthdays
      | Some b \<Rightarrow>
     (case strptime b of Inl e \<Rightarrow> Inl e | Inr birthday_date \<Rightarrow>
     (case replace_year birthday_date (year today) of Inl e \<Rightarrow> Inl e | Inr this_year \<Rightarrow>
     (case (if date_less this_year today then replace_year this_year (year today + 1)
            else Inr this_year)
      of Inl e \<Rightarrow> Inl e | Inr birthday_this_year \<Rightarrow>
       (if 0 \<le> days_between birthday_this_year today
            \<and> days_between birthday_this_year today \<le> 7
        then
          (case (if weekday birthday_this_year = 5 then add_days birthday_this_year 2
                 else if weekday birthday_this_year = 6 then add_days birthday_this_year 1
                 else Inr birthday_this_year)
           of Inl e \<Rightarrow> Inl e
            | Inr greeting_date \<Rightarrow>
                upcoming_loop today rest
                  (upcoming_birthdays @ [(name record, strftime_dmY greeting_date)]))
        else upcoming_loop today rest upcoming_birthdays)))))"

definition get_upcoming_birthdays :: "date \<Rightarrow> AddressBook \<Rightarrow> (error + entry list) \<times> AddressBook" where
  "get_upcoming_birthdays today data = (upcoming_loop today (map snd data) [], data)"

fun str_all :: "Record list \<Rightarrow> error + string list" where
  "str_all [] = Inr []"
| "str_all (record # rest) =
     (case Record_str record of Inl e \<Rightarrow> Inl e
      | Inr s \<Rightarrow> (case str_all rest of Inl e \<Rightarrow> Inl e | Inr ss \<Rightarrow> Inr (s # ss)))"

definition AddressBook_str :: "AddressBook \<Rightarrow> error + string" where
  "AddressBook_str data =
     (case str_all (map snd data) of Inl e \<Rightarrow> Inl e | Inr ss \<Rightarrow> Inr (join [CHR 0x0A] ss))"

section \<open>Commands\<close>

text \<open>
  A command takes the argument list and the book and returns the string it returns, or
  the exception that leaves it, together with the book as the call leaves it.
  \<open>input_error\<close> turns the four exception classes it catches into strings; any other
  exception passes through.
\<close>

type_synonym command = "string list \<Rightarrow> AddressBook \<Rightarrow> (error + string) \<times> AddressBook"

definition input_error :: "command \<Rightarrow> command" where
  "input_error func args book =
     (case func args book of
        (Inr s, book') \<Rightarrow> (Inr s, book')
      | (Inl (KeyError _), book') \<Rightarrow> (Inr ''This contact does not exist.'', book')
      | (Inl (ValueError e), book') \<Rightarrow> (Inr e, book')
      | (Inl (IndexError _), book') \<Rightarrow> (Inr ''Enter the argument for the command.'', book')
      | (Inl (TypeError _), book') \<Rightarrow>
          (Inr ''Invalid input. Please check your data and try again.'', book')
      | (Inl e, book') \<Rightarrow> (Inl e, book'))"

text \<open>Unpacking a list into a fixed number of names raises \<open>ValueError\<close> on any other length.\<close>

definition unpack_error :: "nat \<Rightarrow> nat \<Rightarrow> error" where
  "unpack_error expected got =
     (if got < expected
      then ValueError (''not enough values to unpack (expected '' @ str_nat expected
                        @ '', got '' @ str_nat got @ '')'')
      else ValueError (''too many values to unpack (expected '' @ str_nat expected @ '')''))"

text \<open>A statement that calls a method and a \<open>return\<close> of a message after it.\<close>

definition then_return :: "(error + 'a) \<times> AddressBook \<Rightarrow> string \<Rightarrow> (error + string) \<times> AddressBook" where
  "then_return r message =
     (case r of (Inl e, book') \<Rightarrow> (Inl e, book') | (Inr _, book') \<Rightarrow> (Inr message, book'))"

definition add_contact_body :: command where
  "add_contact_body args book =
     (case args of
        [] \<Rightarrow> (Inl (IndexError ''list index out of range''), book)
      | n # others \<Rightarrow>
          (let phone = (case others of [] \<Rightarrow> None | p # _ \<Rightarrow> Some p)
           in case (case AddressBook_find n book of
                      Some record \<Rightarrow> Inr (n, record, ''Contact updated.'', book)
                    | None \<Rightarrow>
                        (case Record_init n of Inl e \<Rightarrow> Inl e
                         | Inr record \<Rightarrow>
                             Inr (name record, record, ''Contact added.'',
                                  AddressBook_add_record record book)))
              of Inl e \<Rightarrow> (Inl e, book)
               | Inr (key, record, message, book') \<Rightarrow>
                   (case phone of
                      None \<Rightarrow> (Inr message, book')
                    | Some p \<Rightarrow>
                        (if p = [] then (Inr message, book')
                         else then_return (call_on key record (Record_add_phone p) book') message))))"

definition add_contact :: command where
  "add_contact = input_error add_contact_body"

definition change_contact_body :: command where
  "change_contact_body args book =
     (case args of
        [n, old_phone, new_phone] \<Rightarrow>
          (case AddressBook_find n book of
             Some record \<Rightarrow>
               then_return (call_on n record (Record_edit_phone old_phone new_phone) book)
                 (''Phone updated for contact '' @ n @ ''.'')
           | None \<Rightarrow> (Inr ''This contact does not exist.'', book))
      | _ \<Rightarrow> (Inl (unpack_error 3 (length args)), book))"

definition change_contact :: command where
  "change_contact = input_error change_contact_body"

definition show_phone_body :: command where
  "show_phone_body args book =
     (case args of
        [] \<Rightarrow> (Inr ''Enter a contact name.'', book)
      | n # _ \<Rightarrow>
          (case AddressBook_find n book of
             Some record \<Rightarrow> (Inr (''Phones for '' @ n @ '': '' @ join '', '' (phones record)), book)
           | None \<Rightarrow> (Inr ''This contact does not exist.'', book)))"

definition show_phone :: command where
  "show_phone = input_error show_phone_body"

definition delete_contact_body :: command where
  "delete_contact_body args book =
     (case args of
        [] \<Rightarrow> (Inr ''Enter a contact name to delete.'', book)
      | n # _ \<Rightarrow> then_return (AddressBook_delete n book) (''Contact '' @ n @ '' deleted.''))"

definition delete_contact :: command where
  "delete_contact = input_error delete_contact_body"

definition show_all :: "AddressBook \<Rightarrow> (error + string) \<times> AddressBook" where
  "show_all book =
     (if book = [] then (Inr ''No contacts saved.'', book) else (AddressBook_str book, book))"

definition add_birthday_body :: command where
  "add_birthday_body args book =
     (case args of
        [n, b] \<Rightarrow>
          (case AddressBook_find n book of
             Some record \<Rightarrow>
               then_return (call_on n record (Record_add_birthday b) book)
                 (''Birthday added for contact '' @ n @ ''.'')
           | None \<Rightarrow> (Inr ''This contact does not exist.'', book))
      | _ \<Rightarrow> (Inl (unpack_error 2 (length args)), book))"

definition add_birthday :: command where
  "add_birthday = input_error add_birthday_body"

definition show_birthday_body :: command where
  "show_birthday_body args book =
     (case args of
        [] \<Rightarrow> (Inl (IndexError ''list index out of range''), book)
      | n # _ \<Rightarrow>
          (case AddressBook_find n book of
             None \<Rightarrow> (Inr ''No birthday found for this contact.'', book)
           | Some record \<Rightarrow>
               (case birthday record of
                  None \<Rightarrow> (Inr ''No birthday found for this contact.'', book)
                | Some b \<Rightarrow>
                    (case str_strftime b ''%d.%m.%Y'' of
                       Inl e \<Rightarrow> (Inl e, book)
                     | Inr t \<Rightarrow> (Inr (''Birthday of '' @ n @ '': '' @ t), book)))))"

definition show_birthday :: command where
  "show_birthday = input_error show_birthday_body"

definition birthdays_body :: "date \<Rightarrow> command" where
  "birthdays_body today args book =
     (case get_upcoming_birthdays today book of
        (Inl e, book') \<Rightarrow> (Inl e, book')
      | (Inr upcoming, book') \<Rightarrow>
          (if upcoming = [] then (Inr ''No upcoming birthdays.'', book')
           else (Inr (join [CHR 0x0A] (map (\<lambda>(n, b). n @ '': '' @ b) upcoming)), book')))"

definition birthdays :: "date \<Rightarrow> command" where
  "birthdays today = input_error (birthdays_body today)"

section \<open>One turn of the loop of \<open>main\<close>\<close>

text \<open>
  \<open>main_step today line book\<close> is one iteration on the line \<open>input\<close> returned: what is
  printed and the book afterwards, the end of the loop, or the exception that leaves
  \<open>main\<close>. The dictionary \<open>commands\<close> holds the seven functions of the source, each
  with the number of parameters it is defined with; the loop calls whatever it finds
  there with the two arguments \<open>(args, book)\<close>, and the call of a function of one
  parameter raises \<open>TypeError\<close> before its body runs. \<open>show_all\<close> is defined with the
  single parameter \<open>book\<close> and without \<open>input_error\<close>.
\<close>

datatype outcome = Continue string AddressBook | Break string | Uncaught error AddressBook

definition parse_input :: "string \<Rightarrow> error + string \<times> string list" where
  "parse_input user_input =
     (case split (strip user_input) of
        [] \<Rightarrow> Inl (ValueError ''not enough values to unpack (expected at least 1, got 0)'')
      | cmd # args \<Rightarrow> Inr (lower cmd, args))"

datatype callable =
    TwoParameters command
  | OneParameter string "AddressBook \<Rightarrow> (error + string) \<times> AddressBook"

definition call_with_two :: "callable \<Rightarrow> command" where
  "call_with_two func args book =
     (case func of
        TwoParameters f \<Rightarrow> f args book
      | OneParameter fname f \<Rightarrow>
          (Inl (TypeError (fname @ ''() takes 1 positional argument but 2 were given'')), book))"

definition commands :: "date \<Rightarrow> (string \<times> callable) list" where
  "commands today =
     [(''add'', TwoParameters add_contact),
      (''change'', TwoParameters change_contact),
      (''phone'', TwoParameters show_phone),
      (''all'', OneParameter ''show_all'' show_all),
      (''birthday'', TwoParameters show_birthday),
      (''add-birthday'', TwoParameters add_birthday),
      (''birthdays'', TwoParameters (birthdays today))]"

text \<open>\<open>print(commands[command](args, book))\<close>: the call, and its result printed.\<close>

definition print_call :: "command \<Rightarrow> string list \<Rightarrow> AddressBook \<Rightarrow> outcome" where
  "print_call func args book =
     (case func args book of
        (Inr s, book') \<Rightarrow> Continue s book'
      | (Inl e, book') \<Rightarrow> Uncaught e book')"

definition main_step :: "date \<Rightarrow> string \<Rightarrow> AddressBook \<Rightarrow> outcome" where
  "main_step today line book =
     (let user_input = strip line
      in if user_input = [] then Continue ''Please enter a valid command.'' book
         else (case parse_input user_input of
                 Inl e \<Rightarrow> Uncaught e book
               | Inr (command, args) \<Rightarrow>
                   (if command \<in> set [''close'', ''exit''] then Break ''Good bye!''
                    else if command = ''hello'' then Continue ''How can I help you?'' book
                    else (case map_of (commands today) command of
                            Some func \<Rightarrow> print_call (call_with_two func) args book
                          | None \<Rightarrow> Continue ''Unknown command.'' book))))"

section \<open>The properties, as the specification words them\<close>

text \<open>
  The upcoming-birthdays rule of the specification, for a birthday \<open>bd\<close> and the date
  \<open>today\<close>: the candidate is the birthday's month and day in today's year, moved to the
  next year when it lies before today; the contact is reported when the candidate is at
  most seven days ahead; the greeting date is the candidate, moved to the Monday after
  when the candidate is a Saturday or a Sunday.
\<close>

definition this_year :: "date \<Rightarrow> date \<Rightarrow> date" where
  "this_year today bd = \<lparr>year = year today, month = month bd, day = day bd\<rparr>"

definition candidate :: "date \<Rightarrow> date \<Rightarrow> date" where
  "candidate today bd =
     (if date_less (this_year today bd) today
      then \<lparr>year = year today + 1, month = month bd, day = day bd\<rparr>
      else this_year today bd)"

definition in_window :: "date \<Rightarrow> date \<Rightarrow> bool" where
  "in_window today c = (0 \<le> days_between c today \<and> days_between c today \<le> 7)"

definition greeting :: "date \<Rightarrow> date" where
  "greeting c =
     (if weekday c = 5 then plus_days c 2 else if weekday c = 6 then plus_days c 1 else c)"

definition expected_entry :: "date \<Rightarrow> Record \<Rightarrow> entry option" where
  "expected_entry today record =
     (case birthday record of
        None \<Rightarrow> None
      | Some b \<Rightarrow>
          (case strptime b of
             Inl _ \<Rightarrow> None
           | Inr bd \<Rightarrow>
               (if in_window today (candidate today bd)
                then Some (name record, strftime_dmY (greeting (candidate today bd)))
                else None)))"

definition expected_upcoming :: "date \<Rightarrow> AddressBook \<Rightarrow> entry list" where
  "expected_upcoming today book = List.map_filter (expected_entry today) (map snd book)"

text \<open>
  A record whose candidate dates exist: its birthday, when it has one, parses, and the
  month and day exist in today's year and in the candidate's year.
\<close>

definition constructible :: "date \<Rightarrow> Record \<Rightarrow> bool" where
  "constructible today record =
     (case birthday record of
        None \<Rightarrow> True
      | Some b \<Rightarrow>
          (case strptime b of
             Inl _ \<Rightarrow> False
           | Inr bd \<Rightarrow> valid_date (this_year today bd) \<and> valid_date (candidate today bd)))"

text \<open>A record as the constructors leave it: a stored birthday parses.\<close>

definition stored_ok :: "Record \<Rightarrow> bool" where
  "stored_ok record =
     (case birthday record of
        None \<Rightarrow> True
      | Some b \<Rightarrow> (case strptime b of Inl _ \<Rightarrow> False | Inr _ \<Rightarrow> True))"

definition born_feb_29 :: "Record \<Rightarrow> bool" where
  "born_feb_29 record =
     (case birthday record of
        None \<Rightarrow> False
      | Some b \<Rightarrow>
          (case strptime b of Inl _ \<Rightarrow> False | Inr bd \<Rightarrow> month bd = 2 \<and> day bd = 29))"

text \<open>
  The texts \<open>strptime\<close> takes for the three fields: a day of one or two digits, or of a
  space and a digit; a month of one or two digits; a year of four digits.
\<close>

definition day_text :: "string \<Rightarrow> bool" where
  "day_text t =
     (case t of
        [a] \<Rightarrow> is_digit a
      | [a, b] \<Rightarrow> (is_digit a \<or> a = CHR '' '') \<and> is_digit b
      | _ \<Rightarrow> False)"

definition month_text :: "string \<Rightarrow> bool" where
  "month_text t =
     (case t of [a] \<Rightarrow> is_digit a | [a, b] \<Rightarrow> is_digit a \<and> is_digit b | _ \<Rightarrow> False)"

definition year_text :: "string \<Rightarrow> bool" where
  "year_text t = (length t = 4 \<and> list_all is_digit t)"

text \<open>The records and the dates of the examples.\<close>

definition ann :: Record where
  "ann = \<lparr>name = ''Ann'', phones = [''1234567890''], birthday = None\<rparr>"

definition ann_born :: Record where
  "ann_born = \<lparr>name = ''Ann'', phones = [''1234567890''], birthday = Some ''12.06.2000''\<rparr>"



definition leap_born :: Record where
  "leap_born = \<lparr>name = ''Lea'', phones = [], birthday = Some ''29.02.2000''\<rparr>"

definition monday_2024_06_10 :: date where
  "monday_2024_06_10 = \<lparr>year = 2024, month = 6, day = 10\<rparr>"

definition saturday_2023_06_10 :: date where
  "saturday_2023_06_10 = \<lparr>year = 2023, month = 6, day = 10\<rparr>"

section \<open>Evaluation of characters and dates\<close>

lemma match_digits_numeral [simp]:
  "match_digits (numeral k) [] = None"
  "match_digits (numeral k) (c # cs) =
     (if is_digit c then match_digits (pred_numeral k) cs else None)"
  by (simp_all add: numeral_eq_Suc [of k])

lemma pad_dec_numeral [simp]:
  "pad_dec (numeral k) n = pad_dec (pred_numeral k) (n div 10) @ [digit_char n]"
  by (simp add: numeral_eq_Suc [of k])

lemma plus_days_numeral [simp]:
  "plus_days d (numeral k) = plus_days (next_day d) (pred_numeral k)"
  by (simp add: numeral_eq_Suc [of k])

lemma call_with_two_simps [simp]:
  "call_with_two (TwoParameters f) = f"
  "call_with_two (OneParameter fname g) args book =
     (Inl (TypeError (fname @ ''() takes 1 positional argument but 2 were given'')), book)"
  by (simp_all add: call_with_two_def fun_eq_iff)

lemmas char_eval = is_digit_def digit_val_def is_space_def in_range_def digit_char_def
  lower_char_def lower_def char_of_def bit_Suc_0_iff

lemmas date_eval = is_leap_def days_in_month_def valid_date_def date_new_def replace_year_def
  date_less_def days_before_year_def days_before_month_def toordinal_def days_between_def
  weekday_def next_day_def add_days_def strftime_dmY_def

lemmas cmd_eval = input_error_def then_return_def call_on_def AddressBook_find_def
  AddressBook_add_record_def AddressBook_delete_def unpack_error_def print_call_def

lemmas parse_eval = match_dollar_def phone_re_match_def one_def two_def lit_def re_d_def
  re_m_def re_Y_def strptime_matches_def int_text_def strip_def strptime_def

section \<open>Record\<close>

lemma Record_str_born:
  "birthday r = Some b \<Longrightarrow> Record_str r = Inl (AttributeError ''strftime'')"
  by (simp add: Record_str_def str_strftime_def)

lemma Record_str_unborn:
  "birthday r = None \<Longrightarrow>
     Record_str r = Inr (''Contact name: '' @ name r @ '', phones: '' @ join ''; '' (phones r))"
  by (simp add: Record_str_def)

text \<open>
  C8. On a record whose birthday is set, \<open>add_birthday\<close> raises the already-set
  \<open>ValueError\<close> whatever the new text is, and leaves the record as it was: the
  birthday stored is still the one set first.
\<close>

theorem add_birthday_twice:
  assumes "birthday r = Some b"
  shows "Record_add_birthday b' r = (Inl (ValueError ''Birthday is already set.''), r)
    \<and> birthday (snd (Record_add_birthday b' r)) = Some b"
  using assms by (simp add: Record_add_birthday_def)

theorem add_birthday_twice_witness:
  "birthday ann_born = Some ''12.06.2000''
   \<and> Record_add_birthday ''01.01.1990'' ann_born
       = (Inl (ValueError ''Birthday is already set.''), ann_born)
   \<and> birthday (snd (Record_add_birthday ''01.01.1990'' ann_born)) = Some ''12.06.2000''"
proof -
  have h: "birthday ann_born = Some ''12.06.2000''"
    by (simp add: ann_born_def)
  show ?thesis
    using h add_birthday_twice [OF h, of "''01.01.1990''"] by simp
qed

text \<open>
  C1. The claim fails on the code. \<open>Birthday\<close> stores the text it was given, and
  \<open>__str__\<close> and \<open>show_birthday\<close> call \<open>strftime\<close> on that text: once
  \<open>add_birthday\<close> has set the birthday of Ann, rendering her record raises
  \<open>AttributeError\<close>, which \<open>input_error\<close> does not catch, so \<open>show_birthday\<close> raises
  it too instead of returning the line.
\<close>

theorem render_with_birthday_raises:
  "Record_add_birthday ''12.06.2000'' ann = (Inr (), ann_born)
   \<and> Record_str ann_born = Inl (AttributeError ''strftime'')
   \<and> show_birthday [''Ann''] [(''Ann'', ann_born)]
       = (Inl (AttributeError ''strftime''), [(''Ann'', ann_born)])"
  by (simp add: Record_add_birthday_def Birthday_def ann_def ann_born_def parse_eval char_eval
      date_eval Record_str_def str_strftime_def show_birthday_def show_birthday_body_def cmd_eval)

section \<open>Phone\<close>

lemma match_digits_Some:
  "match_digits n s = Some r \<longleftrightarrow> (\<exists>d. s = d @ r \<and> length d = n \<and> list_all is_digit d)"
proof (induction n s rule: match_digits.induct)
  case (1 s)
  show ?case by auto
next
  case (2 n)
  show ?case by auto
next
  case (3 n c cs)
  show ?case
  proof (cases "is_digit c")
    case True
    have "(\<exists>d. cs = d @ r \<and> length d = n \<and> list_all is_digit d)
      \<longleftrightarrow> (\<exists>d. c # cs = d @ r \<and> length d = Suc n \<and> list_all is_digit d)"
    proof
      assume "\<exists>d. cs = d @ r \<and> length d = n \<and> list_all is_digit d"
      then obtain d where "cs = d @ r" "length d = n" "list_all is_digit d" by blast
      with True have "c # cs = (c # d) @ r \<and> length (c # d) = Suc n \<and> list_all is_digit (c # d)"
        by simp
      then show "\<exists>d. c # cs = d @ r \<and> length d = Suc n \<and> list_all is_digit d" by blast
    next
      assume "\<exists>d. c # cs = d @ r \<and> length d = Suc n \<and> list_all is_digit d"
      then obtain d where d: "c # cs = d @ r" "length d = Suc n" "list_all is_digit d" by blast
      then obtain x d' where "d = x # d'" by (cases d) auto
      with d have "cs = d' @ r \<and> length d' = n \<and> list_all is_digit d'" by simp
      then show "\<exists>d. cs = d @ r \<and> length d = n \<and> list_all is_digit d" by blast
    qed
    with True 3 show ?thesis by simp
  next
    case False
    have "\<not> (\<exists>d. c # cs = d @ r \<and> length d = Suc n \<and> list_all is_digit d)"
    proof
      assume "\<exists>d. c # cs = d @ r \<and> length d = Suc n \<and> list_all is_digit d"
      then obtain d where d: "c # cs = d @ r" "length d = Suc n" "list_all is_digit d" by blast
      then obtain x d' where "d = x # d'" by (cases d) auto
      with d False show False by simp
    qed
    with False show ?thesis by simp
  qed
qed

lemma Phone_accepts:
  "Phone s = Inr s \<longleftrightarrow>
     (\<exists>d. length d = 10 \<and> list_all is_digit d \<and> (s = d \<or> s = d @ [CHR 0x0A]))"
proof -
  have "Phone s = Inr s \<longleftrightarrow> (\<exists>r. match_digits 10 s = Some r \<and> match_dollar r)"
    by (auto simp: Phone_def phone_re_match_def split: option.splits)
  also have "\<dots> \<longleftrightarrow> (\<exists>d. length d = 10 \<and> list_all is_digit d \<and> (s = d \<or> s = d @ [CHR 0x0A]))"
    unfolding match_digits_Some match_dollar_def by auto
  finally show ?thesis .
qed

lemma Phone_rejects:
  "Phone s = Inr s \<or> Phone s = Inl (ValueError ''Phone must contain exactly 10 digits.'')"
  by (simp add: Phone_def)

text \<open>
  C4. The claim fails on the code in one direction. Ten digits are accepted and every
  string that does not start with exactly ten digits is refused, but \<open>$\<close> also matches
  before a final line feed: the eleven-character string of ten digits and a line feed
  is accepted, and stored with its line feed.
\<close>

theorem phone_with_line_feed:
  "Phone (''1234567890'' @ [CHR 0x0A]) = Inr (''1234567890'' @ [CHR 0x0A])
   \<and> length (''1234567890'' @ [CHR 0x0A]) = 11"
  by (simp add: Phone_def parse_eval char_eval)

section \<open>Commands\<close>

lemma input_error_book: "snd (input_error f args book) = snd (f args book)"
  by (simp add: input_error_def split: prod.splits sum.splits error.splits)

text \<open>
  C2. The claim fails on the code. \<open>edit_phone\<close> removes the old phone before it
  validates the new one, and \<open>add_contact\<close> stores the new record before it validates
  the phone: both commands return the validation message and leave a changed book.
\<close>

theorem error_leaves_partial_change:
  "change_contact [''Ann'', ''1234567890'', ''12345''] [(''Ann'', ann)]
     = (Inr ''Phone must contain exactly 10 digits.'', [(''Ann'', ann\<lparr>phones := []\<rparr>)])
   \<and> add_contact [''Bob'', ''12345''] []
     = (Inr ''Phone must contain exactly 10 digits.'',
        [(''Bob'', \<lparr>name = ''Bob'', phones = [], birthday = None\<rparr>)])"
  by (simp add: change_contact_def change_contact_body_def add_contact_def add_contact_body_def
      cmd_eval Record_edit_phone_def Record_find_phone_def Record_remove_phone_def
      Record_add_phone_def Phone_def Record_init_def Name_def ann_def parse_eval char_eval)

text \<open>
  C6, as the claim states it, fails: \<open>change\<close> with two arguments and \<open>add-birthday\<close>
  with one raise the \<open>ValueError\<close> of the unpacking, whose message is returned, and
  \<open>phone\<close> without arguments returns its own prompt.
\<close>

theorem too_few_arguments_counterexample:
  "fst (change_contact [''Ann'', ''1234567890''] [(''Ann'', ann)])
     = Inr ''not enough values to unpack (expected 3, got 2)''
   \<and> fst (add_birthday [''Ann''] [(''Ann'', ann)])
     = Inr ''not enough values to unpack (expected 2, got 1)''
   \<and> fst (show_phone [] [(''Ann'', ann)]) = Inr ''Enter a contact name.''
   \<and> fst (show_phone [] [(''Ann'', ann)]) \<noteq> Inr ''Enter the argument for the command.''"
  by (simp add: change_contact_def change_contact_body_def add_birthday_def add_birthday_body_def
      show_phone_def show_phone_body_def cmd_eval str_nat.simps char_eval)

text \<open>
  C6, amended. The commands that index the argument list, \<open>add\<close> and the
  birthday display, return "Enter the argument for the command." when they get no
  argument; \<open>phone\<close> and the deletion function guard the empty list themselves and
  return their own prompts. The book is unchanged in all four.
\<close>

theorem too_few_arguments:
  "add_contact [] book = (Inr ''Enter the argument for the command.'', book)
   \<and> show_birthday [] book = (Inr ''Enter the argument for the command.'', book)
   \<and> show_phone [] book = (Inr ''Enter a contact name.'', book)
   \<and> delete_contact [] book = (Inr ''Enter a contact name to delete.'', book)"
  by (simp add: add_contact_def add_contact_body_def show_birthday_def show_birthday_body_def
      show_phone_def show_phone_body_def delete_contact_def delete_contact_body_def cmd_eval)

text \<open>
  C9. The upcoming-birthdays query and the \<open>birthdays\<close> command leave the book as it
  was, whether they return a list or raise.
\<close>

theorem birthdays_pure_read:
  "snd (get_upcoming_birthdays today book) = book \<and> snd (birthdays today args book) = book"
  by (simp add: birthdays_def input_error_book birthdays_body_def get_upcoming_birthdays_def
      split: sum.splits)

section \<open>Dates\<close>

text \<open>
  The constructor succeeds exactly on the valid triples, and the two additions of the
  query never leave the range of dates: the last Saturday and Sunday of the year 9999
  are followed by days of that year.
\<close>

lemma date_new_valid:
  "valid_date \<lparr>year = y, month = m, day = d\<rparr> \<Longrightarrow> date_new y m d = Inr \<lparr>year = y, month = m, day = d\<rparr>"
  by (auto simp: valid_date_def date_new_def)

lemma date_new_Inr:
  "date_new y m d = Inr x \<Longrightarrow> x = \<lparr>year = y, month = m, day = d\<rparr> \<and> valid_date x"
  by (auto simp: valid_date_def date_new_def split: if_splits)

lemma strptime_valid: "strptime s = Inr bd \<Longrightarrow> valid_date bd"
  by (auto simp: strptime_def split: list.splits prod.splits if_splits dest: date_new_Inr)

lemma year_next_day:
  "valid_date c \<Longrightarrow>
     year (next_day c) = (if month c = 12 \<and> day c = 31 then year c + 1 else year c)"
  by (auto simp: next_day_def valid_date_def days_in_month_def)

lemma next_day_last:
  assumes "valid_date c" and "month (next_day c) = 12" and "day (next_day c) = 31"
  shows "month c = 12 \<and> day c = 30 \<and> year (next_day c) = year c"
  using assms by (auto simp: next_day_def valid_date_def days_in_month_def split: if_splits)

lemma next_day_valid:
  assumes "valid_date c" and "year (next_day c) \<le> 9999"
  shows "valid_date (next_day c)"
  using assms by (auto simp: next_day_def valid_date_def days_in_month_def split: if_splits)

lemma weekday_last_days:
  "weekday \<lparr>year = 9999, month = 12, day = 31\<rparr> = 4"
  "weekday \<lparr>year = 9999, month = 12, day = 30\<rparr> = 3"
  by (simp_all add: date_eval)

lemma next_day_in_range:
  assumes "valid_date c" and "weekday c = 5 \<or> weekday c = 6"
  shows "year (next_day c) \<le> 9999"
proof (rule ccontr)
  assume "\<not> year (next_day c) \<le> 9999"
  with assms(1) have "c = \<lparr>year = 9999, month = 12, day = 31\<rparr>"
    by (auto simp: year_next_day valid_date_def split: if_splits)
  with assms(2) show False by (simp add: weekday_last_days)
qed

lemma next_next_day_in_range:
  assumes "valid_date c" and "weekday c = 5"
  shows "year (next_day (next_day c)) \<le> 9999"
proof (rule ccontr)
  assume a: "\<not> year (next_day (next_day c)) \<le> 9999"
  from assms have "year (next_day c) \<le> 9999" by (simp add: next_day_in_range)
  with assms(1) have v: "valid_date (next_day c)" by (rule next_day_valid)
  with a have n: "year (next_day c) = 9999" "month (next_day c) = 12" "day (next_day c) = 31"
    by (auto simp: year_next_day valid_date_def split: if_splits)
  with assms(1) have "month c = 12 \<and> day c = 30 \<and> year c = 9999"
    using next_day_last [of c] by simp
  then have "c = \<lparr>year = 9999, month = 12, day = 30\<rparr>" by simp
  with assms(2) show False by (simp add: weekday_last_days)
qed

lemma add_one_day:
  assumes "valid_date c" and "weekday c = 6"
  shows "add_days c 1 = Inr (plus_days c 1)"
  using next_day_in_range [of c] assms by (simp add: add_days_def)

lemma add_two_days:
  assumes "valid_date c" and "weekday c = 5"
  shows "add_days c 2 = Inr (plus_days c 2)"
  using next_next_day_in_range [of c] assms by (simp add: add_days_def)

text \<open>
  The calendar successor is the next ordinal, so the greeting date is two days after a
  Saturday, one day after a Sunday, and never falls on a weekend.
\<close>

lemma div_step:
  assumes "0 < k"
  shows "(y::int) div k = (y - 1) div k + (if y mod k = 0 then 1 else 0)"
proof -
  define q r where "q = y div k" and "r = y mod k"
  have y: "y = k * q + r" and r: "0 \<le> r" "r < k"
    using assms by (simp_all add: q_def r_def)
  show ?thesis
  proof (cases "r = 0")
    case True
    with y have "y - 1 = k * (q - 1) + (k - 1)" by (simp add: algebra_simps)
    from int_div_pos_eq [OF this] assms have "(y - 1) div k = q - 1" by simp
    with True show ?thesis by (simp add: q_def r_def)
  next
    case False
    with y have "y - 1 = k * q + (r - 1)" by simp
    from int_div_pos_eq [OF this] r False have "(y - 1) div k = q" by simp
    with False show ?thesis by (simp add: q_def r_def)
  qed
qed

lemma mod_chain:
  fixes y :: int
  shows "y mod 400 = 0 \<Longrightarrow> y mod 100 = 0" and "y mod 100 = 0 \<Longrightarrow> y mod 4 = 0"
proof -
  have a: "(100::int) dvd 400" and b: "(4::int) dvd 100" by simp_all
  show "y mod 400 = 0 \<Longrightarrow> y mod 100 = 0"
    using dvd_trans [OF a, of y] by (simp add: mod_eq_0_iff_dvd)
  show "y mod 100 = 0 \<Longrightarrow> y mod 4 = 0"
    using dvd_trans [OF b, of y] by (simp add: mod_eq_0_iff_dvd)
qed

lemma days_before_year_next:
  "days_before_year (y + 1) = days_before_year y + (if is_leap y then 366 else 365)"
proof -
  define q4 q100 q400 where "q4 = (y - 1) div 4" and "q100 = (y - 1) div 100"
    and "q400 = (y - 1) div 400"
  define b4 b100 b400 where "b4 \<longleftrightarrow> y mod 4 = 0" and "b100 \<longleftrightarrow> y mod 100 = 0"
    and "b400 \<longleftrightarrow> y mod 400 = 0"
  have d4: "y div 4 = q4 + (if b4 then 1 else 0)"
    unfolding q4_def b4_def by (rule div_step) simp
  have d100: "y div 100 = q100 + (if b100 then 1 else 0)"
    unfolding q100_def b100_def by (rule div_step) simp
  have d400: "y div 400 = q400 + (if b400 then 1 else 0)"
    unfolding q400_def b400_def by (rule div_step) simp
  have c: "b400 \<Longrightarrow> b100" "b100 \<Longrightarrow> b4"
    unfolding b4_def b100_def b400_def by (rule mod_chain, assumption)+
  have l: "is_leap y \<longleftrightarrow> b4 \<and> (\<not> b100 \<or> b400)"
    by (simp only: is_leap_def b4_def b100_def b400_def)
  have n: "days_before_year (y + 1) = y * 365 + y div 4 - y div 100 + y div 400"
    unfolding days_before_year_def by (simp only: add_diff_cancel_right')
  have o: "days_before_year y = y * 365 - 365 + q4 - q100 + q400"
    unfolding days_before_year_def q4_def q100_def q400_def
    by (simp only: left_diff_distrib mult_1)
  show ?thesis
    unfolding n o d4 d100 d400 l using c by (cases b4; cases b100; cases b400) simp_all
qed

lemma days_before_month_next:
  assumes "1 \<le> m" and "m < 12"
  shows "days_before_month y (m + 1) = days_before_month y m + days_in_month y m"
proof -
  from assms have "m = 1 \<or> m = 2 \<or> m = 3 \<or> m = 4 \<or> m = 5 \<or> m = 6 \<or> m = 7 \<or> m = 8
      \<or> m = 9 \<or> m = 10 \<or> m = 11"
    by arith
  then show ?thesis
    by (auto simp: days_before_month_def days_in_month_def)
qed

lemma days_before_month_last: "days_before_month y 12 + 31 = (if is_leap y then 366 else 365)"
  by (simp add: days_before_month_def)

lemma toordinal_next_day:
  assumes "valid_date d"
  shows "toordinal (next_day d) = toordinal d + 1"
proof (cases "day d < days_in_month (year d) (month d)")
  case True
  then show ?thesis by (simp add: next_day_def toordinal_def)
next
  case False
  with assms have l: "day d = days_in_month (year d) (month d)"
    by (simp add: valid_date_def)
  show ?thesis
  proof (cases "month d < 12")
    case True
    with assms have "days_before_month (year d) (month d + 1)
        = days_before_month (year d) (month d) + days_in_month (year d) (month d)"
      by (simp add: days_before_month_next valid_date_def)
    with True False l show ?thesis by (simp add: next_day_def toordinal_def)
  next
    case m: False
    with assms have "month d = 12" by (simp add: valid_date_def)
    with l have "day d = 31" by (simp add: days_in_month_def)
    with \<open>month d = 12\<close> False m show ?thesis
      using days_before_month_last [of "year d"] days_before_year_next [of "year d"]
      by (simp add: next_day_def toordinal_def days_before_month_def)
  qed
qed

lemma greeting_shift:
  assumes "valid_date c"
  shows "days_between (greeting c) c = (if weekday c = 5 then 2 else if weekday c = 6 then 1 else 0)"
    and "weekday (greeting c) \<noteq> 5 \<and> weekday (greeting c) \<noteq> 6"
proof -
  have one: "toordinal (next_day c) = toordinal c + 1"
    using assms by (rule toordinal_next_day)
  have two: "toordinal (next_day (next_day c)) = toordinal c + 2" if "weekday c = 5"
  proof -
    from assms that have "year (next_day c) \<le> 9999" by (simp add: next_day_in_range)
    with assms have "valid_date (next_day c)" by (rule next_day_valid)
    from toordinal_next_day [OF this] one show ?thesis by simp
  qed
  show "days_between (greeting c) c = (if weekday c = 5 then 2 else if weekday c = 6 then 1 else 0)"
    using one two by (simp add: greeting_def days_between_def)
  show "weekday (greeting c) \<noteq> 5 \<and> weekday (greeting c) \<noteq> 6"
    using one two by (auto simp: greeting_def weekday_def) presburger+
qed

section \<open>The upcoming-birthdays query\<close>

lemma upcoming_loop_step:
  assumes "constructible today r"
  shows "upcoming_loop today (r # rs) acc
    = upcoming_loop today rs (acc @ (case expected_entry today r of None \<Rightarrow> [] | Some e \<Rightarrow> [e]))"
proof (cases "birthday r")
  case None
  then show ?thesis by (simp add: expected_entry_def)
next
  case (Some b)
  with assms obtain bd where bd: "strptime b = Inr bd"
    and v1: "valid_date (this_year today bd)" and v2: "valid_date (candidate today bd)"
    by (auto simp: constructible_def split: sum.splits)
  have r1: "replace_year bd (year today) = Inr (this_year today bd)"
    using v1 by (simp add: replace_year_def this_year_def date_new_valid)
  have r2: "(if date_less (this_year today bd) today
             then replace_year (this_year today bd) (year today + 1)
             else Inr (this_year today bd)) = Inr (candidate today bd)"
    using v2 by (auto simp: replace_year_def candidate_def this_year_def date_new_valid)
  have g: "(if weekday (candidate today bd) = 5 then add_days (candidate today bd) 2
            else if weekday (candidate today bd) = 6 then add_days (candidate today bd) 1
            else Inr (candidate today bd)) = Inr (greeting (candidate today bd))"
    using add_one_day [OF v2] add_two_days [OF v2] by (auto simp: greeting_def)
  show ?thesis
    using Some bd by (simp add: r1 r2 g expected_entry_def in_window_def)
qed



lemmas rule_eval = constructible_def this_year_def candidate_def in_window_def greeting_def
  expected_entry_def expected_upcoming_def



lemma not_feb_29_constructible:
  assumes "valid_date today" and "year today < 9999" and "stored_ok r" and "\<not> born_feb_29 r"
  shows "constructible today r"
proof (cases "birthday r")
  case None
  then show ?thesis by (simp add: constructible_def)
next
  case (Some b)
  with assms(3) obtain bd where bd: "strptime b = Inr bd"
    by (auto simp: stored_ok_def split: sum.splits)
  then have v: "valid_date bd" by (rule strptime_valid)
  from assms(4) Some bd have n: "\<not> (month bd = 2 \<and> day bd = 29)"
    by (simp add: born_feb_29_def)
  have d: "day bd \<le> days_in_month y (month bd)" for y
    using v n by (auto simp: valid_date_def days_in_month_def split: if_splits)
  have "valid_date (this_year today bd)"
    using assms(1) v d [of "year today"] by (simp add: valid_date_def this_year_def)
  moreover have "valid_date (candidate today bd)"
    using assms(1,2) v d [of "year today"] d [of "year today + 1"]
    by (simp add: valid_date_def this_year_def candidate_def)
  ultimately show ?thesis
    using Some bd by (simp add: constructible_def)
qed

lemma upcoming_loop_feb_29:
  assumes "valid_date today" and "year today < 9999" and "\<not> is_leap (year today)"
  shows "\<forall>r\<in>set rs. stored_ok r \<Longrightarrow> \<exists>r\<in>set rs. born_feb_29 r \<Longrightarrow>
    upcoming_loop today rs acc = Inl (ValueError ''day is out of range for month'')"
proof (induction rs arbitrary: acc)
  case Nil
  then show ?case by simp
next
  case (Cons r rs)
  show ?case
  proof (cases "born_feb_29 r")
    case True
    then obtain b bd where b: "birthday r = Some b" and bd: "strptime b = Inr bd"
      and f: "month bd = 2" "day bd = 29"
      by (auto simp: born_feb_29_def split: option.splits sum.splits)
    have "replace_year bd (year today) = Inl (ValueError ''day is out of range for month'')"
      using assms(1,3) f by (simp add: replace_year_def date_new_def valid_date_def days_in_month_def)
    with b bd show ?thesis by simp
  next
    case False
    with Cons.prems assms have c: "constructible today r"
      by (simp add: not_feb_29_constructible)
    from False Cons.prems have "\<exists>r\<in>set rs. born_feb_29 r" by auto
    with Cons.prems Cons.IH show ?thesis
      by (simp add: upcoming_loop_step [OF c] del: upcoming_loop.simps)
  qed
qed

text \<open>
  C10. Today is a date of a common year before 9999, and every stored birthday parses.
  If some record of the book was born on a 29 February, the query raises the
  \<open>ValueError\<close> of the date constructor, whatever the other records are, and the
  \<open>birthdays\<close> command returns its message in place of a list; the book is unchanged.
\<close>

theorem leap_day_birthday_raises:
  assumes "valid_date today" and "year today < 9999" and "\<not> is_leap (year today)"
    and "\<forall>r\<in>set (map snd book). stored_ok r"
    and "\<exists>r\<in>set (map snd book). born_feb_29 r"
  shows "get_upcoming_birthdays today book
           = (Inl (ValueError ''day is out of range for month''), book)
    \<and> birthdays today args book = (Inr ''day is out of range for month'', book)"
  using upcoming_loop_feb_29 [OF assms(1-3), of "map snd book" "[]"] assms(4,5)
  by (simp add: get_upcoming_birthdays_def birthdays_def birthdays_body_def input_error_def)

theorem leap_day_birthday_raises_witness:
  "valid_date saturday_2023_06_10 \<and> year saturday_2023_06_10 < 9999
   \<and> \<not> is_leap (year saturday_2023_06_10)
   \<and> stored_ok ann_born \<and> stored_ok leap_born \<and> born_feb_29 leap_born
   \<and> expected_entry saturday_2023_06_10 ann_born = Some (''Ann'', ''12.06.2023'')
   \<and> birthdays saturday_2023_06_10 [] [(''Ann'', ann_born), (''Lea'', leap_born)]
      = (Inr ''day is out of range for month'', [(''Ann'', ann_born), (''Lea'', leap_born)])"
proof -
  have t: "valid_date saturday_2023_06_10" "year saturday_2023_06_10 < 9999"
    "\<not> is_leap (year saturday_2023_06_10)"
    by (simp_all add: saturday_2023_06_10_def date_eval)
  have s: "stored_ok ann_born" "stored_ok leap_born" "born_feb_29 leap_born"
    by (simp_all add: stored_ok_def born_feb_29_def ann_born_def leap_born_def parse_eval
        char_eval date_eval)
  have e: "expected_entry saturday_2023_06_10 ann_born = Some (''Ann'', ''12.06.2023'')"
    by (simp add: rule_eval ann_born_def saturday_2023_06_10_def parse_eval char_eval date_eval)
  have h1: "\<forall>r\<in>set (map snd [(''Ann'', ann_born), (''Lea'', leap_born)]). stored_ok r"
    using s by simp
  have h2: "\<exists>r\<in>set (map snd [(''Ann'', ann_born), (''Lea'', leap_born)]). born_feb_29 r"
    using s by simp
  show ?thesis
    using t s e leap_day_birthday_raises [OF t h1 h2, of "[]"] by simp
qed

section \<open>The dispatch\<close>

text \<open>
  The word \<open>all\<close> is found in \<open>commands\<close>, but the call of \<open>show_all\<close> with two
  arguments raises \<open>TypeError\<close>, which nothing catches.
\<close>

lemma all_raises:
  "main_step monday_2024_06_10 ''all'' [(''Ann'', ann)]
     = Uncaught (TypeError ''show_all() takes 1 positional argument but 2 were given'')
         [(''Ann'', ann)]"
  by (simp add: main_step_def parse_input_def split_def strip_def commands_def print_call_def
      char_eval)

text \<open>
  C7, as the claim states it, fails: \<open>commands\<close> has no entry \<open>show-birthday\<close> and no
  entry \<open>delete\<close>, so both lines get the answer of an unknown command.
\<close>

theorem unknown_commands_counterexample:
  "main_step monday_2024_06_10 ''show-birthday Ann'' [(''Ann'', ann_born)]
     = Continue ''Unknown command.'' [(''Ann'', ann_born)]
   \<and> main_step monday_2024_06_10 ''delete Ann'' [(''Ann'', ann_born)]
     = Continue ''Unknown command.'' [(''Ann'', ann_born)]"
  by (simp add: main_step_def parse_input_def split_def strip_def commands_def char_eval)

text \<open>
  C7, amended. For a line with the command word \<open>c\<close> and the arguments \<open>args\<close>: the
  words \<open>add\<close>, \<open>change\<close>, \<open>phone\<close>, \<open>add-birthday\<close> and \<open>birthdays\<close> are routed to
  their functions, whose result is printed; \<open>hello\<close>, \<open>close\<close> and \<open>exit\<close> are answered
  by the loop; the birthday display is routed under the word \<open>birthday\<close>, and
  \<open>show-birthday\<close> gets the answer of an unknown command. Nothing is said of \<open>delete\<close>
  and of \<open>all\<close>.
\<close>

theorem dispatch_table:
  assumes "strip line \<noteq> []" and "parse_input (strip line) = Inr (c, args)"
  shows "(c = ''add'' \<longrightarrow> main_step today line book = print_call add_contact args book)
    \<and> (c = ''change'' \<longrightarrow> main_step today line book = print_call change_contact args book)
    \<and> (c = ''phone'' \<longrightarrow> main_step today line book = print_call show_phone args book)
    \<and> (c = ''add-birthday'' \<longrightarrow> main_step today line book = print_call add_birthday args book)
    \<and> (c = ''birthdays'' \<longrightarrow> main_step today line book = print_call (birthdays today) args book)
    \<and> (c = ''birthday'' \<longrightarrow> main_step today line book = print_call show_birthday args book)
    \<and> (c = ''show-birthday'' \<longrightarrow> main_step today line book = Continue ''Unknown command.'' book)
    \<and> (c = ''hello'' \<longrightarrow> main_step today line book = Continue ''How can I help you?'' book)
    \<and> (c = ''close'' \<or> c = ''exit'' \<longrightarrow> main_step today line book = Break ''Good bye!'')"
  using assms by (simp add: main_step_def commands_def)

theorem dispatch_table_witness:
  "strip ''birthday Ann'' \<noteq> []
   \<and> parse_input (strip ''birthday Ann'') = Inr (''birthday'', [''Ann''])
   \<and> main_step monday_2024_06_10 ''birthday Ann'' [(''Ann'', ann)]
       = print_call show_birthday [''Ann''] [(''Ann'', ann)]
   \<and> print_call show_birthday [''Ann''] [(''Ann'', ann)]
       = Continue ''No birthday found for this contact.'' [(''Ann'', ann)]"
proof -
  have h1: "strip ''birthday Ann'' \<noteq> []"
    by (simp add: strip_def char_eval)
  have h2: "parse_input (strip ''birthday Ann'') = Inr (''birthday'', [''Ann''])"
    by (simp add: parse_input_def split_def strip_def char_eval)
  have h3: "print_call show_birthday [''Ann''] [(''Ann'', ann)]
       = Continue ''No birthday found for this contact.'' [(''Ann'', ann)]"
    by (simp add: show_birthday_def show_birthday_body_def cmd_eval ann_def)
  show ?thesis
    using h1 h2 h3 dispatch_table [OF h1 h2, of monday_2024_06_10 "[(''Ann'', ann)]"] by simp
qed

section \<open>Birthday\<close>

text \<open>
  What the groups of the expression of \<open>strptime\<close> match, in terms of the texts and of
  the numbers \<open>int\<close> reads from them; a string has at most one match, since the day and
  the month end at the first and at the second dot.
\<close>

lemma char_code_eq: "c = d \<longleftrightarrow> (of_char c :: nat) = of_char d"
  by simp

lemma one_iff: "(t, r) \<in> set (one p s) \<longleftrightarrow> (\<exists>a. t = [a] \<and> s = a # r \<and> p a)"
  by (auto simp: one_def split: list.splits)

lemma two_iff:
  "(t, r) \<in> set (two p q s) \<longleftrightarrow> (\<exists>a b. t = [a, b] \<and> s = a # b # r \<and> p a \<and> q b)"
  by (auto simp: two_def split: list.splits)

lemma lit_iff: "r \<in> set (lit c s) \<longleftrightarrow> s = c # r"
  by (auto simp: lit_def split: list.splits)

lemma re_Y_iff: "(t, r) \<in> set (re_Y s) \<longleftrightarrow> s = t @ r \<and> year_text t"
proof
  assume "(t, r) \<in> set (re_Y s)"
  then have m: "match_digits 4 s = Some r" and t: "t = take 4 s"
    by (auto simp: re_Y_def split: option.splits)
  from m obtain d where "s = d @ r" "length d = 4" "list_all is_digit d"
    unfolding match_digits_Some by blast
  with t show "s = t @ r \<and> year_text t" by (simp add: year_text_def)
next
  assume a: "s = t @ r \<and> year_text t"
  then have "match_digits 4 s = Some r"
    unfolding match_digits_Some by (auto simp: year_text_def)
  with a show "(t, r) \<in> set (re_Y s)" by (simp add: re_Y_def year_text_def)
qed

lemma int_text_digits:
  "is_digit a \<Longrightarrow> int_text [a] = digit_val a"
  "is_digit a \<Longrightarrow> is_digit b \<Longrightarrow> int_text [a, b] = 10 * digit_val a + digit_val b"
  "is_digit b \<Longrightarrow> int_text [CHR '' '', b] = digit_val b"
  by (auto simp: int_text_def strip_def is_digit_def is_space_def)

lemma re_d_iff:
  "(t, r) \<in> set (re_d s) \<longleftrightarrow>
     s = t @ r \<and> day_text t \<and> 1 \<le> int_text t \<and> int_text t \<le> 31"
proof (cases "day_text t")
  case False
  then show ?thesis
    by (auto simp: re_d_def one_iff two_iff day_text_def in_range_def is_digit_def)
next
  case True
  then consider a where "t = [a]" "is_digit a"
    | a b where "t = [a, b]" "is_digit a" "is_digit b"
    | b where "t = [CHR '' '', b]" "is_digit b"
    by (auto simp: day_text_def split: list.splits)
  then show ?thesis
  proof cases
    case 1
    with True show ?thesis
      by (auto simp: re_d_def one_iff two_iff int_text_digits in_range_def is_digit_def
          digit_val_def)
  next
    case 2
    with True show ?thesis
      by (auto simp: re_d_def one_iff two_iff int_text_digits in_range_def is_digit_def
          digit_val_def char_code_eq [of _ "CHR ''3''"] char_code_eq [of _ "CHR ''0''"]
          char_code_eq [of _ "CHR '' ''"])
  next
    case 3
    with True show ?thesis
      by (auto simp: re_d_def one_iff two_iff int_text_digits in_range_def is_digit_def
          digit_val_def)
  qed
qed


lemma re_m_iff:
  "(t, r) \<in> set (re_m s) \<longleftrightarrow>
     s = t @ r \<and> month_text t \<and> 1 \<le> int_text t \<and> int_text t \<le> 12"
proof (cases "month_text t")
  case False
  then show ?thesis
    by (auto simp: re_m_def one_iff two_iff month_text_def in_range_def is_digit_def)
next
  case True
  then consider a where "t = [a]" "is_digit a"
    | a b where "t = [a, b]" "is_digit a" "is_digit b"
    by (auto simp: month_text_def split: list.splits)
  then show ?thesis
  proof cases
    case 1
    with True show ?thesis
      by (auto simp: re_m_def one_iff two_iff int_text_digits in_range_def is_digit_def
          digit_val_def)
  next
    case 2
    with True show ?thesis
      by (auto simp: re_m_def one_iff two_iff int_text_digits in_range_def is_digit_def
          digit_val_def char_code_eq [of _ "CHR ''1''"] char_code_eq [of _ "CHR ''0''"])
  qed
qed

lemma in_concat_map: "a \<in> set xs \<Longrightarrow> x \<in> set (f a) \<Longrightarrow> x \<in> set (concat (map f xs))"
  by auto

lemma in_concat_map_pair:
  "(a, b) \<in> set xs \<Longrightarrow> x \<in> set (f a b) \<Longrightarrow> x \<in> set (concat (map (\<lambda>(a, b). f a b) xs))"
  by force

lemma in_map_pair: "(a, b) \<in> set xs \<Longrightarrow> g a b \<in> set (map (\<lambda>(a, b). g a b) xs)"
  by force

lemma strptime_matches_intro:
  assumes h1: "(d, r1) \<in> set (re_d s)" and h2: "r2 \<in> set (lit CHR ''.'' r1)"
    and h3: "(m, r3) \<in> set (re_m r2)" and h4: "r4 \<in> set (lit CHR ''.'' r3)"
    and h5: "(y, r) \<in> set (re_Y r4)"
  shows "(d, m, y, r) \<in> set (strptime_matches s)"
  unfolding strptime_matches_def
  by (rule in_concat_map_pair [OF h1], rule in_concat_map [OF h2],
      rule in_concat_map_pair [OF h3], rule in_concat_map [OF h4], rule in_map_pair [OF h5])

lemma strptime_matches_iff:
  "(d, m, y, r) \<in> set (strptime_matches s) \<longleftrightarrow>
     s = d @ ''.'' @ m @ ''.'' @ y @ r
     \<and> day_text d \<and> 1 \<le> int_text d \<and> int_text d \<le> 31
     \<and> month_text m \<and> 1 \<le> int_text m \<and> int_text m \<le> 12
     \<and> year_text y"
proof
  assume "(d, m, y, r) \<in> set (strptime_matches s)"
  then obtain r1 r2 r3 r4 where "(d, r1) \<in> set (re_d s)" "r2 \<in> set (lit CHR ''.'' r1)"
    "(m, r3) \<in> set (re_m r2)" "r4 \<in> set (lit CHR ''.'' r3)" "(y, r) \<in> set (re_Y r4)"
    by (auto simp: strptime_matches_def)
  then show "s = d @ ''.'' @ m @ ''.'' @ y @ r
     \<and> day_text d \<and> 1 \<le> int_text d \<and> int_text d \<le> 31
     \<and> month_text m \<and> 1 \<le> int_text m \<and> int_text m \<le> 12
     \<and> year_text y"
    by (simp add: re_d_iff lit_iff re_m_iff re_Y_iff)
next
  assume a: "s = d @ ''.'' @ m @ ''.'' @ y @ r
     \<and> day_text d \<and> 1 \<le> int_text d \<and> int_text d \<le> 31
     \<and> month_text m \<and> 1 \<le> int_text m \<and> int_text m \<le> 12
     \<and> year_text y"
  have h1: "(d, ''.'' @ m @ ''.'' @ y @ r) \<in> set (re_d s)"
    using a by (simp add: re_d_iff)
  have h2: "m @ ''.'' @ y @ r \<in> set (lit CHR ''.'' (''.'' @ m @ ''.'' @ y @ r))"
    by (simp add: lit_iff)
  have h3: "(m, ''.'' @ y @ r) \<in> set (re_m (m @ ''.'' @ y @ r))"
    using a by (simp add: re_m_iff)
  have h4: "y @ r \<in> set (lit CHR ''.'' (''.'' @ y @ r))"
    by (simp add: lit_iff)
  have h5: "(y, r) \<in> set (re_Y (y @ r))"
    using a by (simp add: re_Y_iff)
  show "(d, m, y, r) \<in> set (strptime_matches s)"
    unfolding strptime_matches_def
    by (rule in_concat_map_pair [OF h1], rule in_concat_map [OF h2],
        rule in_concat_map_pair [OF h3], rule in_concat_map [OF h4], rule in_map_pair [OF h5])
qed

lemma no_dot:
  "day_text t \<Longrightarrow> CHR ''.'' \<notin> set t"
  "month_text t \<Longrightarrow> CHR ''.'' \<notin> set t"
  by (auto simp: day_text_def month_text_def is_digit_def split: list.splits)

lemma split_at_unique:
  "xs @ c # a = ys @ c # b \<Longrightarrow> c \<notin> set xs \<Longrightarrow> c \<notin> set ys \<Longrightarrow> xs = ys \<and> a = b"
proof (induction xs arbitrary: ys)
  case Nil
  then show ?case by (cases ys) auto
next
  case (Cons x xs)
  then show ?case by (cases ys) auto
qed

lemma strptime_matches_unique:
  assumes "(d, m, y, r) \<in> set (strptime_matches s)"
    and "(d', m', y', r') \<in> set (strptime_matches s)"
  shows "d' = d \<and> m' = m \<and> y' = y \<and> r' = r"
proof -
  from assms have s: "d @ CHR ''.'' # (m @ CHR ''.'' # (y @ r)) = d' @ CHR ''.'' # (m' @ CHR ''.'' # (y' @ r'))"
    and t: "day_text d" "day_text d'" "month_text m" "month_text m'" "year_text y" "year_text y'"
    by (auto simp: strptime_matches_iff)
  from split_at_unique [OF s] t have d: "d = d'" and s2: "m @ CHR ''.'' # (y @ r) = m' @ CHR ''.'' # (y' @ r')"
    by (auto simp: no_dot)
  from split_at_unique [OF s2] t have m: "m = m'" and s3: "y @ r = y' @ r'"
    by (auto simp: no_dot)
  from s3 t have "y = y' \<and> r = r'" by (auto simp: year_text_def)
  with d m show ?thesis by simp
qed

lemma strptime_matches_hd:
  assumes "(d, m, y, r) \<in> set (strptime_matches s)"
  shows "\<exists>rest. strptime_matches s = (d, m, y, r) # rest"
proof (cases "strptime_matches s")
  case Nil
  with assms show ?thesis by simp
next
  case (Cons x rest)
  obtain d' m' y' r' where x: "x = (d', m', y', r')" by (cases x) auto
  with Cons have "(d', m', y', r') \<in> set (strptime_matches s)" by simp
  from strptime_matches_unique [OF assms this] x Cons show ?thesis by simp
qed

lemma valid_date_ranges:
  "valid_date \<lparr>year = y, month = m, day = d\<rparr> \<Longrightarrow> 1 \<le> d \<and> d \<le> 31 \<and> 1 \<le> m \<and> m \<le> 12"
  by (auto simp: valid_date_def days_in_month_def split: if_splits)

lemma strptime_Inr_iff:
  "(\<exists>x. strptime s = Inr x) \<longleftrightarrow>
     (\<exists>d m y. s = d @ ''.'' @ m @ ''.'' @ y \<and> day_text d \<and> month_text m \<and> year_text y
        \<and> valid_date \<lparr>year = int_text y, month = int_text m, day = int_text d\<rparr>)"
proof
  assume "\<exists>x. strptime s = Inr x"
  then obtain x where x: "strptime s = Inr x" ..
  then obtain d m y rest where h: "strptime_matches s = (d, m, y, []) # rest"
    and n: "date_new (int_text y) (int_text m) (int_text d) = Inr x"
    by (auto simp: strptime_def split: list.splits if_splits)
  from h have "(d, m, y, []) \<in> set (strptime_matches s)" by simp
  then have "s = d @ ''.'' @ m @ ''.'' @ y \<and> day_text d \<and> month_text m \<and> year_text y"
    by (simp add: strptime_matches_iff)
  moreover from date_new_Inr [OF n]
  have "valid_date \<lparr>year = int_text y, month = int_text m, day = int_text d\<rparr>" by auto
  ultimately show "\<exists>d m y. s = d @ ''.'' @ m @ ''.'' @ y \<and> day_text d \<and> month_text m
      \<and> year_text y \<and> valid_date \<lparr>year = int_text y, month = int_text m, day = int_text d\<rparr>"
    by blast
next
  assume "\<exists>d m y. s = d @ ''.'' @ m @ ''.'' @ y \<and> day_text d \<and> month_text m \<and> year_text y
      \<and> valid_date \<lparr>year = int_text y, month = int_text m, day = int_text d\<rparr>"
  then obtain d m y where s: "s = d @ ''.'' @ m @ ''.'' @ y"
    and t: "day_text d" "month_text m" "year_text y"
    and v: "valid_date \<lparr>year = int_text y, month = int_text m, day = int_text d\<rparr>"
    by blast
  from s t valid_date_ranges [OF v] have "(d, m, y, []) \<in> set (strptime_matches s)"
    by (simp add: strptime_matches_iff)
  from strptime_matches_hd [OF this] obtain rest
    where "strptime_matches s = (d, m, y, []) # rest" ..
  with date_new_valid [OF v] show "\<exists>x. strptime s = Inr x"
    by (simp add: strptime_def)
qed

text \<open>
  C5, as the claim states it, fails: a day of one digit, a month of one digit and a day
  written with a space are accepted.
\<close>

theorem birthday_one_digit_counterexample:
  "Birthday ''1.01.2000'' = Inr ''1.01.2000''
   \<and> Birthday ''1.1.2000'' = Inr ''1.1.2000''
   \<and> Birthday '' 1.01.2000'' = Inr '' 1.01.2000''"
  by (simp add: Birthday_def parse_eval char_eval date_eval)

text \<open>
  C5, amended. Constructing a Birthday succeeds exactly on the strings day.month.year
  whose day is one or two digits, or a space and a digit, whose month is one or two
  digits and whose year is four digits, and whose three numbers are a calendar date of
  the years 1 to 9999; every other string, a well-formed invalid date among them,
  fails with the validation error.
\<close>

theorem birthday_accepts:
  "(Birthday s = Inr s \<longleftrightarrow>
     (\<exists>d m y. s = d @ ''.'' @ m @ ''.'' @ y \<and> day_text d \<and> month_text m \<and> year_text y
        \<and> valid_date \<lparr>year = int_text y, month = int_text m, day = int_text d\<rparr>))
   \<and> (Birthday s = Inr s \<or> Birthday s = Inl (ValueError ''Invalid date format. Use DD.MM.YYYY.''))"
proof -
  have e: "strptime s = Inl e \<Longrightarrow> \<exists>msg. e = ValueError msg" for e
    by (auto simp: strptime_def date_new_def split: list.splits if_splits)
  have "Birthday s = Inr s \<longleftrightarrow> (\<exists>x. strptime s = Inr x)"
    by (auto simp: Birthday_def split: sum.splits error.splits)
  moreover have "Birthday s = Inr s \<or> Birthday s = Inl (ValueError ''Invalid date format. Use DD.MM.YYYY.'')"
    using e by (cases "strptime s") (auto simp: Birthday_def)
  ultimately show ?thesis
    by (simp add: strptime_Inr_iff)
qed

theorem birthday_accepts_witness:
  "Birthday ''29.02.2000'' = Inr ''29.02.2000''
   \<and> Birthday ''31.02.2000'' = Inl (ValueError ''Invalid date format. Use DD.MM.YYYY.'')
   \<and> Birthday ''29.02.2001'' = Inl (ValueError ''Invalid date format. Use DD.MM.YYYY.'')"
proof -
  have "\<exists>d m y. ''29.02.2000'' = d @ ''.'' @ m @ ''.'' @ y
      \<and> day_text d \<and> month_text m \<and> year_text y
      \<and> valid_date \<lparr>year = int_text y, month = int_text m, day = int_text d\<rparr>"
    by (rule exI [of _ "''29''"], rule exI [of _ "''02''"], rule exI [of _ "''2000''"])
      (simp add: day_text_def month_text_def year_text_def parse_eval char_eval date_eval)
  then have "Birthday ''29.02.2000'' = Inr ''29.02.2000''"
    using birthday_accepts [of "''29.02.2000''"] by blast
  moreover have "Birthday ''31.02.2000'' = Inl (ValueError ''Invalid date format. Use DD.MM.YYYY.'')"
    by (simp add: Birthday_def parse_eval char_eval date_eval)
  moreover have "Birthday ''29.02.2001'' = Inl (ValueError ''Invalid date format. Use DD.MM.YYYY.'')"
    by (simp add: Birthday_def parse_eval char_eval date_eval)
  ultimately show ?thesis by blast
qed

end
